theory Spec2Isabelle
  imports Complex_Main "HOL-Library.Multiset"
begin

section \<open>Notebook helpers of retail/notebooks/utils.py\<close>

text \<open>
  The module holds two functions: \<open>evaluate\<close>, which fits a random forest and returns its
  predictions with a table of feature importances, and \<open>plot_feature_importances\<close>, which
  sorts such a table, adds a normalised and a cumulative column, plots, and returns the table.

  Numbers. The importance column is float64 in the source. A finite float64 is modelled
  as the rational it denotes, and finite division and addition are exact: rounding and
  overflow are not modelled, so nothing below is a statement about the last bit of a sum.
  The properties proved are those that hold of the columns whatever the rounding: the
  order and identity of the rows, which entries a running sum adds, monotonicity, and the
  comparisons of the threshold lookup. The values that float64 division and addition
  produce outside the finite numbers (the two infinities and NaN) are modelled, because a
  table whose importances sum to zero is divided by zero without any exception being
  raised.
\<close>

subsection \<open>float64 values\<close>

datatype float64 = Fin rat | PInf | NInf | NaN

text \<open>\<open>x / s\<close> for finite \<open>x\<close> and \<open>s\<close>: numpy division does not raise on a zero divisor.\<close>

definition fdiv :: "rat \<Rightarrow> rat \<Rightarrow> float64" where
  "fdiv x s =
     (if s \<noteq> 0 then Fin (x / s)
      else if 0 < x then PInf
      else if x < 0 then NInf
      else NaN)"

fun fadd :: "float64 \<Rightarrow> float64 \<Rightarrow> float64" where
  "fadd NaN _ = NaN"
| "fadd _ NaN = NaN"
| "fadd PInf NInf = NaN"
| "fadd NInf PInf = NaN"
| "fadd PInf _ = PInf"
| "fadd _ PInf = PInf"
| "fadd NInf _ = NInf"
| "fadd _ NInf = NInf"
| "fadd (Fin a) (Fin b) = Fin (a + b)"


text \<open>\<open>v > t\<close> for a column entry \<open>v\<close> and a finite threshold \<open>t\<close>.\<close>

fun fgt :: "float64 \<Rightarrow> rat \<Rightarrow> bool" where
  "fgt (Fin a) t = (t < a)"
| "fgt PInf t = True"
| "fgt NInf t = False"
| "fgt NaN t = False"

definition isnan :: "float64 \<Rightarrow> bool" where
  "isnan v = (v = NaN)"

text \<open>The sum of a column, added from left to right starting at zero.\<close>

definition fsum :: "float64 list \<Rightarrow> float64" where
  "fsum vs = foldl fadd (Fin 0) vs"

text \<open>\<open>numpy.cumsum\<close> on an array: the running sum, the first entry unchanged.\<close>

fun accumulate :: "float64 \<Rightarrow> float64 list \<Rightarrow> float64 list" where
  "accumulate acc [] = []"
| "accumulate acc (v # vs) = fadd acc v # accumulate (fadd acc v) vs"

fun np_cumsum :: "float64 list \<Rightarrow> float64 list" where
  "np_cumsum [] = []"
| "np_cumsum (v # vs) = v # accumulate v vs"

text \<open>
  \<open>numpy.cumsum\<close> applied to a pandas Series calls the Series' own \<open>cumsum\<close>, which
  skips NaN (\<open>skipna=True\<close>): NaN entries are replaced by zero, the array is accumulated,
  and the NaN positions of the input are NaN in the result.
\<close>

definition series_cumsum :: "float64 list \<Rightarrow> float64 list" where
  "series_cumsum vs =
     map2 (\<lambda>v a. if isnan v then NaN else a) vs
       (np_cumsum (map (\<lambda>v. if isnan v then Fin 0 else v) vs))"

subsection \<open>The importance table\<close>

text \<open>
  The docstring of \<open>plot_feature_importances\<close> fixes the columns of its argument:
  "feature" and "importance". A row holds its index label and these two cells; the
  importance is a finite number. The two columns that the function adds are optional
  columns of the frame.
\<close>

record row =
  label :: int
  feature :: string
  importance :: rat

record dataframe =
  rows :: "row list"
  importance_normalized :: "float64 list option"
  cumulative_importance :: "float64 list option"

datatype error = ValueError | KeyError | IndexError | TypeError | LibraryError string

text \<open>
  \<open>pd.DataFrame({'feature': names, 'importance': values})\<close>: the index is 0..len-1, and
  columns of different lengths are refused with a ValueError.
\<close>

definition DataFrame :: "string list \<Rightarrow> rat list \<Rightarrow> error + dataframe" where
  "DataFrame names vals =
     (if length names \<noteq> length vals then Inl ValueError
      else Inr \<lparr>rows = map (\<lambda>i. \<lparr>label = int i, feature = names ! i, importance = vals ! i\<rparr>)
                          [0..<length names],
                importance_normalized = None,
                cumulative_importance = None\<rparr>)"

definition importance_col :: "dataframe \<Rightarrow> rat list" where
  "importance_col df = map importance (rows df)"

text \<open>
  \<open>sort_values('importance', ascending = False)\<close> computes the positions of the rows in
  descending order of the key and takes every column at these positions. The order among
  rows of equal importance is the one of a stable sort here; pandas' default sort kind
  leaves it open, and the numeric columns do not depend on it. The columns of a frame
  have the length of its index, so every position is in range.
\<close>

definition argsort_desc :: "rat list \<Rightarrow> nat list" where
  "argsort_desc xs = sort_key (\<lambda>i. - (xs ! i)) [0..<length xs]"

definition take_rows :: "nat list \<Rightarrow> 'a list \<Rightarrow> 'a list" where
  "take_rows perm xs = map (\<lambda>i. xs ! i) perm"

definition sort_values :: "dataframe \<Rightarrow> dataframe" where
  "sort_values df =
     (let perm = argsort_desc (importance_col df)
      in \<lparr>rows = take_rows perm (rows df),
          importance_normalized = map_option (take_rows perm) (importance_normalized df),
          cumulative_importance = map_option (take_rows perm) (cumulative_importance df)\<rparr>)"

text \<open>\<open>reset_index(drop = True)\<close>: the labels become 0..len-1, the old ones are dropped.\<close>

definition reset_index :: "dataframe \<Rightarrow> dataframe" where
  "reset_index df =
     df\<lparr>rows := map (\<lambda>(i, r). r\<lparr>label := int i\<rparr>) (zip [0..<length (rows df)] (rows df))\<rparr>"

text \<open>
  Assigning a Series to a column aligns it with the frame on the index labels. The Series
  assigned below are computed from columns of the same frame and carry its index, so the
  assignment is positional.
\<close>

definition getitem_normalized :: "dataframe \<Rightarrow> error + float64 list" where
  "getitem_normalized df =
     (case importance_normalized df of None \<Rightarrow> Inl KeyError | Some c \<Rightarrow> Inr c)"

definition getitem_cumulative :: "dataframe \<Rightarrow> error + float64 list" where
  "getitem_cumulative df =
     (case cumulative_importance df of None \<Rightarrow> Inl KeyError | Some c \<Rightarrow> Inr c)"

text \<open>
  \<open>df.loc[:n, :]\<close> with the columns \<open>x = 'feature'\<close>, \<open>y = 'importance_normalized'\<close> of
  the bar plot: a label slice includes its end point, so these are the rows whose label is
  at most \<open>n\<close>. Drawing the bars of an empty selection (an empty table, or \<open>n < 0\<close>)
  raises an IndexError.
\<close>

definition loc_barh :: "int \<Rightarrow> dataframe \<Rightarrow> error + (string \<times> float64) list" where
  "loc_barh n df =
     (case getitem_normalized df of
        Inl e \<Rightarrow> Inl e
      | Inr nrm \<Rightarrow>
          (let bars = map (\<lambda>(r, v). (feature r, v))
                        (filter (\<lambda>(r, v). label r \<le> n) (zip (rows df) nrm))
           in if bars = [] then Inl IndexError else Inr bars))"

text \<open>
  \<open>np.where(column > threshold)\<close> lists the positions where the comparison holds, in
  increasing order; \<open>np.min\<close> of an empty array raises a ValueError.
\<close>

definition np_where_gt :: "float64 list \<Rightarrow> rat \<Rightarrow> nat list" where
  "np_where_gt vs t = filter (\<lambda>i. fgt (vs ! i) t) [0..<length vs]"

definition np_min :: "nat list \<Rightarrow> error + nat" where
  "np_min xs = (case xs of [] \<Rightarrow> Inl ValueError | x # ys \<Rightarrow> Inr (fold min ys x))"

text \<open>
  The \<open>threshold\<close> argument is \<open>None\<close> or a finite number; \<open>if threshold:\<close> tests its
  truth value, which is false for \<open>None\<close> and for zero.
\<close>

definition truthy :: "rat option \<Rightarrow> bool" where
  "truthy threshold = (case threshold of None \<Rightarrow> False | Some t \<Rightarrow> t \<noteq> 0)"

subsection \<open>Objects and effects\<close>

text \<open>
  A dataframe is a mutable object, and \<open>df[name] = column\<close> writes into it. The store is
  the list of the objects allocated so far, a reference is a position in it. The plots
  and the printed line are recorded as events. The bar plot raises on an empty selection;
  the other matplotlib calls (labels, title, the line plot, the vertical line) are taken
  not to raise.
\<close>

type_synonym ref = nat
type_synonym store = "dataframe list"

definition alloc :: "store \<Rightarrow> dataframe \<Rightarrow> store \<times> ref" where
  "alloc st df = (st @ [df], length st)"

datatype event =
    Barh "(string \<times> float64) list" int
  | Plot "nat list" "float64 list"
  | VLines nat
  | Show
  | Print_required nat rat
  | Print_cv "rat list"
  | Print_mae rat

record result =
  heap :: store
  events :: "event list"
  outcome :: "error + ref"

subsection \<open>plot_feature_importances\<close>

text \<open>
  Lines 71 to 75 as a function of the table alone: sort, renumber, add the two columns.
\<close>

definition importance_table :: "dataframe \<Rightarrow> dataframe" where
  "importance_table d =
     (let s = reset_index (sort_values d);
          imp = importance_col s;
          nrm = map (\<lambda>x. fdiv x (sum_list imp)) imp
      in s\<lparr>importance_normalized := Some nrm,
            cumulative_importance := Some (series_cumsum nrm)\<rparr>)"

text \<open>
  The function statement by statement. \<open>sort_values\<close> and \<open>reset_index\<close> each return a
  new object; the local name \<open>df\<close> is rebound to the second one, and both column
  assignments write into that object. \<open>df0\<close> is the caller's reference.
\<close>

definition plot_feature_importances :: "store \<Rightarrow> ref \<Rightarrow> int \<Rightarrow> rat option \<Rightarrow> result" where
  "plot_feature_importances st0 df0 n threshold =
     (let (st1, tmp) = alloc st0 (sort_values (st0 ! df0));
          (st2, df) = alloc st1 (reset_index (st1 ! tmp));
          imp = importance_col (st2 ! df);
          st3 = st2[df := (st2 ! df)\<lparr>importance_normalized :=
                             Some (map (\<lambda>x. fdiv x (sum_list imp)) imp)\<rparr>]
      in case getitem_normalized (st3 ! df) of
           Inl e \<Rightarrow> \<lparr>heap = st3, events = [], outcome = Inl e\<rparr>
         | Inr nrm \<Rightarrow>
     (let st4 = st3[df := (st3 ! df)\<lparr>cumulative_importance := Some (series_cumsum nrm)\<rparr>]
      in case loc_barh n (st4 ! df) of
           Inl e \<Rightarrow> \<lparr>heap = st4, events = [], outcome = Inl e\<rparr>
         | Inr bars \<Rightarrow>
     (let ev = [Barh bars n]
      in case (if truthy threshold then threshold else None) of
           None \<Rightarrow> \<lparr>heap = st4, events = ev, outcome = Inr df\<rparr>
         | Some t \<Rightarrow>
     (case getitem_cumulative (st4 ! df) of
           Inl e \<Rightarrow> \<lparr>heap = st4, events = ev, outcome = Inl e\<rparr>
         | Inr cum \<Rightarrow>
     (let ev = ev @ [Plot [0..<length (rows (st4 ! df))] cum]
      in case np_min (np_where_gt cum t) of
           Inl e \<Rightarrow> \<lparr>heap = st4, events = ev, outcome = Inl e\<rparr>
         | Inr importance_index \<Rightarrow>
             \<lparr>heap = st4,
              events = ev @ [VLines (importance_index + 1), Show,
                             Print_required (importance_index + 1) (100 * t)],
              outcome = Inr df\<rparr>)))))"

text \<open>The number of features that the final line prints, if it is printed.\<close>

fun reported :: "event list \<Rightarrow> nat option" where
  "reported [] = None"
| "reported (Print_required k p # es) = Some k"
| "reported (e # es) = reported es"

subsection \<open>evaluate\<close>

text \<open>
  The feature tables hold float64 cells under named columns. The scikit-learn calls
  (imputer, cross validation, the random forest, the error metric) are parameters of the
  model: each either raises or returns a value.
\<close>

record table =
  columns :: "string list"
  cells :: "float64 list list"

definition replace_inf :: "table \<Rightarrow> table" where
  "replace_inf t =
     t\<lparr>cells := map (map (\<lambda>v. if v = PInf \<or> v = NInf then NaN else v)) (cells t)\<rparr>"

record ('imputer, 'model) sklearn =
  imputer_fit_transform :: "table \<Rightarrow> error + ('imputer \<times> rat list list)"
  imputer_transform :: "'imputer \<Rightarrow> table \<Rightarrow> error + rat list list"
  cross_val_score :: "rat list list \<Rightarrow> rat list \<Rightarrow> error + rat list"
  fit :: "rat list list \<Rightarrow> rat list \<Rightarrow> error + 'model"
  predict :: "'model \<Rightarrow> rat list list \<Rightarrow> error + rat list"
  feature_importances :: "'model \<Rightarrow> rat list"
  median_absolute_error :: "rat list \<Rightarrow> rat list \<Rightarrow> error + rat"

definition evaluate ::
  "('imputer, 'model) sklearn \<Rightarrow> table \<Rightarrow> rat list \<Rightarrow> table \<Rightarrow> rat list
     \<Rightarrow> event list \<times> (error + rat list \<times> dataframe)" where
  "evaluate sk train0 train_labels test0 test_labels =
     (let train = replace_inf train0;
          test = replace_inf test0;
          feature_names = columns train
      in case imputer_fit_transform sk train of
           Inl e \<Rightarrow> ([], Inl e)
         | Inr (imputer, train_m) \<Rightarrow>
     (case imputer_transform sk imputer test of
           Inl e \<Rightarrow> ([], Inl e)
         | Inr test_m \<Rightarrow>
     (case cross_val_score sk train_m train_labels of
           Inl e \<Rightarrow> ([], Inl e)
         | Inr scores \<Rightarrow>
     (let cv_score = map (\<lambda>s. - 1 * s) scores
      in case fit sk train_m train_labels of
           Inl e \<Rightarrow> ([], Inl e)
         | Inr model \<Rightarrow>
     (case predict sk model test_m of
           Inl e \<Rightarrow> ([], Inl e)
         | Inr preds \<Rightarrow>
     (case median_absolute_error sk test_labels preds of
           Inl e \<Rightarrow> ([], Inl e)
         | Inr mae_score \<Rightarrow>
     (let ev = [Print_cv cv_score, Print_mae mae_score]
      in case DataFrame feature_names (feature_importances sk model) of
           Inl e \<Rightarrow> (ev, Inl e)
         | Inr feature_importances_df \<Rightarrow> (ev, Inr (preds, feature_importances_df)))))))))"

subsection \<open>Example inputs\<close>

text \<open>A table of three features, out of order and with labels of its own.\<close>

definition ex_table :: dataframe where
  "ex_table =
     \<lparr>rows = [\<lparr>label = 7, feature = ''a'', importance = 1\<rparr>,
              \<lparr>label = 3, feature = ''b'', importance = 3\<rparr>,
              \<lparr>label = 5, feature = ''c'', importance = 0\<rparr>],
      importance_normalized = None, cumulative_importance = None\<rparr>"

text \<open>A table with a negative importance; its total is 2.\<close>

definition ex_negative :: dataframe where
  "ex_negative =
     \<lparr>rows = [\<lparr>label = 0, feature = ''a'', importance = - 1\<rparr>,
              \<lparr>label = 1, feature = ''b'', importance = 3\<rparr>],
      importance_normalized = None, cumulative_importance = None\<rparr>"

text \<open>
  A stand-in for the scikit-learn calls, to run \<open>evaluate\<close> on: the imputer puts zero
  for a missing cell, the fitted model is its vector of importances (equal weights), it
  predicts zero for every row, and the error metric refuses vectors of different lengths.
\<close>

definition finite_or_zero :: "float64 \<Rightarrow> rat" where
  "finite_or_zero v = (case v of Fin q \<Rightarrow> q | _ \<Rightarrow> 0)"

definition ex_sklearn :: "(unit, rat list) sklearn" where
  "ex_sklearn =
     \<lparr>imputer_fit_transform = (\<lambda>t. Inr ((), map (map finite_or_zero) (cells t))),
      imputer_transform = (\<lambda>u t. Inr (map (map finite_or_zero) (cells t))),
      cross_val_score = (\<lambda>m y. Inr [- 1, - 1, - 1, - 1, - 1]),
      fit = (\<lambda>m y. Inr (case m of [] \<Rightarrow> [] | r # rs \<Rightarrow> map (\<lambda>c. 1 / of_nat (length r)) r)),
      predict = (\<lambda>model m. Inr (map (\<lambda>r. 0) m)),
      feature_importances = (\<lambda>model. model),
      median_absolute_error =
        (\<lambda>y p. if length y \<noteq> length p then Inl ValueError else Inr 0)\<rparr>"

definition ex_train :: table where
  "ex_train = \<lparr>columns = [''x'', ''y''], cells = [[Fin 1, PInf], [Fin 2, Fin 3]]\<rparr>"

definition ex_test :: table where
  "ex_test = \<lparr>columns = [''x'', ''y''], cells = [[Fin 4, Fin 5]]\<rparr>"

section \<open>Properties\<close>

subsection \<open>Sorting and renumbering\<close>

lemma set_argsort_desc: "set (argsort_desc xs) = {0..<length xs}"
  by (simp add: argsort_desc_def)

lemma length_argsort_desc: "length (argsort_desc xs) = length xs"
  by (simp add: argsort_desc_def)

lemma mset_argsort_desc: "mset (argsort_desc xs) = mset [0..<length xs]"
  by (simp add: argsort_desc_def)

lemma mset_take_rows:
  assumes "length ks = length xs"
  shows "mset (take_rows (argsort_desc ks) xs) = mset xs"
proof -
  have "mset (take_rows (argsort_desc ks) xs) = image_mset (\<lambda>i. xs ! i) (mset (argsort_desc ks))"
    by (simp add: take_rows_def)
  also have "\<dots> = mset (map (\<lambda>i. xs ! i) [0..<length xs])"
    by (simp add: mset_argsort_desc assms)
  also have "\<dots> = mset xs"
    by (simp add: map_nth)
  finally show ?thesis .
qed

lemma map_take_rows:
  assumes "set perm \<subseteq> {0..<length xs}"
  shows "map f (take_rows perm xs) = take_rows perm (map f xs)"
  using assms by (auto simp: take_rows_def)

lemma sorted_take_rows_argsort:
  "sorted_wrt (\<lambda>a b. b \<le> a) (take_rows (argsort_desc xs) xs)"
proof -
  have "sorted (map (\<lambda>i. - (xs ! i)) (argsort_desc xs))"
    unfolding argsort_desc_def by (rule sorted_sort_key)
  then have "sorted_wrt (\<lambda>i j. xs ! j \<le> xs ! i) (argsort_desc xs)"
    by (simp add: sorted_wrt_map)
  then show ?thesis
    by (simp add: take_rows_def sorted_wrt_map)
qed

lemma rows_sort_values:
  "rows (sort_values d) = take_rows (argsort_desc (importance_col d)) (rows d)"
  by (simp add: sort_values_def Let_def)

lemma importance_col_sort_values:
  "importance_col (sort_values d) = take_rows (argsort_desc (importance_col d)) (importance_col d)"
  unfolding importance_col_def rows_sort_values
  by (rule map_take_rows) (simp add: set_argsort_desc)

lemma length_rows_sort_values: "length (rows (sort_values d)) = length (rows d)"
  by (simp add: rows_sort_values take_rows_def length_argsort_desc importance_col_def)

lemma mset_rows_sort_values: "mset (rows (sort_values d)) = mset (rows d)"
  unfolding rows_sort_values by (rule mset_take_rows) (simp add: importance_col_def)

lemma rows_reset_index:
  "rows (reset_index d) = map (\<lambda>(i, r). r\<lparr>label := int i\<rparr>) (zip [0..<length (rows d)] (rows d))"
  by (simp add: reset_index_def)

lemma length_rows_reset_index: "length (rows (reset_index d)) = length (rows d)"
  by (simp add: rows_reset_index)

lemma map_zip_snd:
  "length xs = length ys \<Longrightarrow> map (\<lambda>x. f (snd x)) (zip xs ys) = map f ys"
  by (induction xs ys rule: list_induct2) auto

lemma map_zip_fst:
  "length xs = length ys \<Longrightarrow> map (\<lambda>x. g (fst x)) (zip xs ys) = map g xs"
  by (induction xs ys rule: list_induct2) auto

lemma map_importance_reset_index: "map importance (rows (reset_index d)) = map importance (rows d)"
  using map_zip_snd [of "[0..<length (rows d)]" "rows d" importance]
  by (simp add: rows_reset_index case_prod_beta comp_def)

lemma map_feature_reset_index: "map feature (rows (reset_index d)) = map feature (rows d)"
  using map_zip_snd [of "[0..<length (rows d)]" "rows d" feature]
  by (simp add: rows_reset_index case_prod_beta comp_def)

lemma map_label_reset_index: "map label (rows (reset_index d)) = map int [0..<length (rows d)]"
  using map_zip_fst [of "[0..<length (rows d)]" "rows d" int]
  by (simp add: rows_reset_index case_prod_beta comp_def)

lemma importance_col_reset_index: "importance_col (reset_index d) = importance_col d"
  by (simp add: importance_col_def map_importance_reset_index)

lemma mset_importance_col_sort_values:
  "mset (importance_col (sort_values d)) = mset (importance_col d)"
  unfolding importance_col_sort_values by (rule mset_take_rows) simp

lemma sum_list_sort_values:
  "sum_list (importance_col (sort_values d)) = sum_list (importance_col d)"
  using mset_importance_col_sort_values [of d] by (metis sum_mset_sum_list)

lemma sorted_importance_col_sort_values:
  "sorted_wrt (\<lambda>a b. b \<le> a) (importance_col (sort_values d))"
  unfolding importance_col_sort_values by (rule sorted_take_rows_argsort)

lemma rows_importance_table: "rows (importance_table d) = rows (reset_index (sort_values d))"
  by (simp add: importance_table_def Let_def)

lemma normalized_importance_table:
  "importance_normalized (importance_table d) =
     Some (map (\<lambda>x. fdiv x (sum_list (importance_col d))) (importance_col (sort_values d)))"
proof -
  show ?thesis
    by (simp add: importance_table_def Let_def importance_col_reset_index
        sum_list_sort_values)
qed

lemma cumulative_importance_table:
  "cumulative_importance (importance_table d) =
     Some (series_cumsum (map (\<lambda>x. fdiv x (sum_list (importance_col d))) (importance_col (sort_values d))))"
  using normalized_importance_table [of d]
  by (simp add: importance_table_def Let_def)

lemma heap_plot_feature_importances:
  "heap (plot_feature_importances st0 df0 n threshold) =
     st0 @ [sort_values (st0 ! df0), importance_table (st0 ! df0)]"
  by (simp add: plot_feature_importances_def alloc_def Let_def nth_append importance_table_def
      getitem_normalized_def getitem_cumulative_def loc_barh_def list_update_append
      split: sum.splits option.splits)

lemma outcome_plot_feature_importances:
  "outcome (plot_feature_importances st0 df0 n threshold) = Inr r \<Longrightarrow> r = Suc (length st0)"
  by (auto simp add: plot_feature_importances_def alloc_def Let_def nth_append 
      getitem_normalized_def getitem_cumulative_def loc_barh_def list_update_append
      split: sum.splits option.splits if_splits)


subsection \<open>Sums of float64 columns\<close>

lemma fadd_zero_left: "fadd (Fin 0) v = v"
  by (cases v) simp_all

lemma fadd_NaN_right: "fadd a NaN = NaN"
  by (cases a) simp_all

lemma foldl_fadd_NaN: "foldl fadd NaN vs = NaN"
  by (induction vs) simp_all

lemma foldl_fadd_mem_NaN: "NaN \<in> set vs \<Longrightarrow> foldl fadd a vs = NaN"
  by (induction vs arbitrary: a) (auto simp: fadd_NaN_right foldl_fadd_NaN)

lemma foldl_fadd_PInf: "NInf \<in> set vs \<Longrightarrow> foldl fadd PInf vs = NaN"
proof (induction vs)
  case Nil
  then show ?case by simp
next
  case (Cons v vs)
  then show ?case by (cases v) (auto simp: foldl_fadd_NaN)
qed

lemma foldl_fadd_NInf: "PInf \<in> set vs \<Longrightarrow> foldl fadd NInf vs = NaN"
proof (induction vs)
  case Nil
  then show ?case by simp
next
  case (Cons v vs)
  then show ?case by (cases v) (auto simp: foldl_fadd_NaN)
qed

lemma foldl_fadd_both:
  "PInf \<in> set vs \<Longrightarrow> NInf \<in> set vs \<Longrightarrow> foldl fadd a vs = NaN"
proof (induction vs arbitrary: a)
  case Nil
  then show ?case by simp
next
  case (Cons v vs)
  show ?case
  proof (cases a)
    case NaN
    then show ?thesis by (simp add: foldl_fadd_NaN)
  next
    case (Fin q)
    with Cons show ?thesis
      by (cases v) (auto simp: foldl_fadd_NaN foldl_fadd_PInf foldl_fadd_NInf)
  next
    case PInf
    with Cons.prems have "NInf \<in> set (v # vs)" by simp
    with PInf show ?thesis using foldl_fadd_PInf [of "v # vs"] by simp
  next
    case NInf
    with Cons.prems have "PInf \<in> set (v # vs)" by simp
    with NInf show ?thesis using foldl_fadd_NInf [of "v # vs"] by simp
  qed
qed

lemma fsum_mem_NaN: "NaN \<in> set vs \<Longrightarrow> fsum vs = NaN"
  by (simp add: fsum_def foldl_fadd_mem_NaN)

lemma fsum_both: "PInf \<in> set vs \<Longrightarrow> NInf \<in> set vs \<Longrightarrow> fsum vs = NaN"
  by (simp add: fsum_def foldl_fadd_both)



subsection \<open>Running sums\<close>

lemma length_accumulate: "length (accumulate a vs) = length vs"
  by (induction vs arbitrary: a) simp_all

lemma length_np_cumsum: "length (np_cumsum vs) = length vs"
  by (cases vs) (simp_all add: length_accumulate)

lemma length_series_cumsum: "length (series_cumsum vs) = length vs"
  by (simp add: series_cumsum_def length_np_cumsum)

lemma nth_accumulate:
  "i < length vs \<Longrightarrow> accumulate a vs ! i = foldl fadd a (take (Suc i) vs)"
proof (induction vs arbitrary: a i)
  case Nil
  then show ?case by simp
next
  case (Cons v vs)
  then show ?case by (cases i) simp_all
qed

lemma nth_np_cumsum: "i < length vs \<Longrightarrow> np_cumsum vs ! i = fsum (take (Suc i) vs)"
proof (cases vs)
  case Nil
  then show "i < length vs \<Longrightarrow> ?thesis" by simp
next
  case (Cons v ws)
  assume "i < length vs"
  with Cons show ?thesis
    by (cases i) (simp_all add: fsum_def fadd_zero_left nth_accumulate)
qed

lemma nth_series_cumsum:
  assumes "i < length vs"
  shows "series_cumsum vs ! i =
           (if vs ! i = NaN then NaN
            else fsum (take (Suc i) (map (\<lambda>v. if isnan v then Fin 0 else v) vs)))"
  using assms by (simp add: series_cumsum_def length_np_cumsum nth_np_cumsum isnan_def)

lemma series_cumsum_no_NaN:
  assumes "NaN \<notin> set vs"
  shows "series_cumsum vs = np_cumsum vs"
proof -
  have m: "map (\<lambda>v. if isnan v then Fin 0 else v) vs = vs"
    using assms by (induction vs) (auto simp: isnan_def)
  show ?thesis
  proof (rule nth_equalityI)
    show "length (series_cumsum vs) = length (np_cumsum vs)"
      by (simp add: length_series_cumsum length_np_cumsum)
  next
    fix i assume "i < length (series_cumsum vs)"
    then have i: "i < length vs" by (simp add: length_series_cumsum)
    then have "vs ! i \<noteq> NaN" using assms by (metis nth_mem)
    with i show "series_cumsum vs ! i = np_cumsum vs ! i"
      by (simp add: nth_series_cumsum nth_np_cumsum m)
  qed
qed

subsection \<open>The object that the call returns\<close>

lemma returned_table:
  assumes "outcome (plot_feature_importances st0 df0 n threshold) = Inr r"
  shows "heap (plot_feature_importances st0 df0 n threshold) ! r = importance_table (st0 ! df0)"
proof -
  have "r = Suc (length st0)"
    using assms by (rule outcome_plot_feature_importances)
  then show ?thesis
    by (simp add: heap_plot_feature_importances nth_append)
qed

section \<open>The claims\<close>

lemma pairs_reset_index:
  "map (\<lambda>r. (feature r, importance r)) (rows (reset_index d)) =
   map (\<lambda>r. (feature r, importance r)) (rows d)"
  using map_zip_snd [of "[0..<length (rows d)]" "rows d" "\<lambda>r. (feature r, importance r)"]
  by (simp add: rows_reset_index case_prod_beta comp_def)

text \<open>
  C4. The rows of the returned table are sorted by importance in non-increasing order,
  the most important feature first, and the index is reset to 0..len-1.
\<close>

theorem rows_sorted_and_renumbered:
  assumes "df0 < length st0"
    and "outcome (plot_feature_importances st0 df0 n threshold) = Inr r"
  shows "sorted_wrt (\<lambda>a b. b \<le> a)
           (importance_col (heap (plot_feature_importances st0 df0 n threshold) ! r))
       \<and> map label (rows (heap (plot_feature_importances st0 df0 n threshold) ! r))
           = map int [0..<length (rows (st0 ! df0))]"
proof -
  let ?out = "heap (plot_feature_importances st0 df0 n threshold) ! r"
  have rows: "rows ?out = rows (reset_index (sort_values (st0 ! df0)))"
    using assms(2) by (simp add: returned_table rows_importance_table)
  have "importance_col ?out = importance_col (sort_values (st0 ! df0))"
    by (simp add: importance_col_def rows map_importance_reset_index)
  then have "sorted_wrt (\<lambda>a b. b \<le> a) (importance_col ?out)"
    by (simp add: sorted_importance_col_sort_values)
  moreover have "map label (rows ?out) = map int [0..<length (rows (st0 ! df0))]"
    by (simp add: rows map_label_reset_index length_rows_sort_values)
  ultimately show ?thesis by simp
qed

theorem rows_sorted_and_renumbered_witness:
  "(0::nat) < length [ex_table]
   \<and> outcome (plot_feature_importances [ex_table] 0 15 None) = Inr 2
   \<and> sorted_wrt (\<lambda>a b. b \<le> a)
         (importance_col (heap (plot_feature_importances [ex_table] 0 15 None) ! 2))
   \<and> map label (rows (heap (plot_feature_importances [ex_table] 0 15 None) ! 2))
       = map int [0..<length (rows ([ex_table] ! 0))]"
proof -
  have h1: "(0::nat) < length [ex_table]"
    by simp
  have h2: "outcome (plot_feature_importances [ex_table] 0 15 None) = Inr 2"
    by code_simp
  show ?thesis
    using h1 h2 rows_sorted_and_renumbered [OF h1 h2] by blast
qed

text \<open>
  C10. The returned table has as many rows as the input, and its (feature, importance)
  pairs are a permutation of the input's: sorting, normalising and accumulating add, drop
  and alter no row.
\<close>

theorem rows_are_a_permutation:
  assumes "df0 < length st0"
    and "outcome (plot_feature_importances st0 df0 n threshold) = Inr r"
  shows "length (rows (heap (plot_feature_importances st0 df0 n threshold) ! r))
           = length (rows (st0 ! df0))
       \<and> mset (map (\<lambda>r. (feature r, importance r))
                 (rows (heap (plot_feature_importances st0 df0 n threshold) ! r)))
           = mset (map (\<lambda>r. (feature r, importance r)) (rows (st0 ! df0)))"
proof -
  let ?out = "heap (plot_feature_importances st0 df0 n threshold) ! r"
  let ?p = "\<lambda>r. (feature r, importance r)"
  have rows: "rows ?out = rows (reset_index (sort_values (st0 ! df0)))"
    using assms(2) by (simp add: returned_table rows_importance_table)
  have len: "length (rows ?out) = length (rows (st0 ! df0))"
    by (simp add: rows length_rows_reset_index length_rows_sort_values)
  have "map ?p (rows ?out) = map ?p (rows (sort_values (st0 ! df0)))"
    by (simp only: rows pairs_reset_index)
  then have "mset (map ?p (rows ?out)) = image_mset ?p (mset (rows (sort_values (st0 ! df0))))"
    by simp
  also have "\<dots> = mset (map ?p (rows (st0 ! df0)))"
    by (simp add: mset_rows_sort_values)
  finally show ?thesis using len by simp
qed

theorem rows_are_a_permutation_witness:
  "(0::nat) < length [ex_table]
   \<and> outcome (plot_feature_importances [ex_table] 0 15 None) = Inr 2
   \<and> length (rows (heap (plot_feature_importances [ex_table] 0 15 None) ! 2))
       = length (rows ([ex_table] ! 0))
   \<and> mset (map (\<lambda>r. (feature r, importance r))
             (rows (heap (plot_feature_importances [ex_table] 0 15 None) ! 2)))
       = mset (map (\<lambda>r. (feature r, importance r)) (rows ([ex_table] ! 0)))"
proof -
  have h1: "(0::nat) < length [ex_table]"
    by simp
  have h2: "outcome (plot_feature_importances [ex_table] 0 15 None) = Inr 2"
    by code_simp
  show ?thesis
    using h1 h2 rows_are_a_permutation [OF h1 h2] by blast
qed

text \<open>
  C7. plot_feature_importances does not mutate its input. After the call, whether it
  returned or raised, the caller's object holds the same table, every object that
  existed before is unchanged, and a returned reference is a fresh object: the sort and
  the column assignments happen on copies.
\<close>

theorem input_not_mutated:
  assumes "df0 < length st0"
  shows "heap (plot_feature_importances st0 df0 n threshold) ! df0 = st0 ! df0
       \<and> take (length st0) (heap (plot_feature_importances st0 df0 n threshold)) = st0
       \<and> (case outcome (plot_feature_importances st0 df0 n threshold) of
             Inl e \<Rightarrow> True
           | Inr r \<Rightarrow> length st0 \<le> r)"
proof -
  have "case outcome (plot_feature_importances st0 df0 n threshold) of
          Inl e \<Rightarrow> True | Inr r \<Rightarrow> length st0 \<le> r"
    using outcome_plot_feature_importances [of st0 df0 n threshold]
    by (cases "outcome (plot_feature_importances st0 df0 n threshold)") simp_all
  then show ?thesis
    using assms by (simp add: heap_plot_feature_importances nth_append)
qed

theorem input_not_mutated_witness:
  "(0::nat) < length [ex_table]
   \<and> heap (plot_feature_importances [ex_table] 0 15 (Some (1 / 2))) ! 0 = ex_table
   \<and> take (length [ex_table]) (heap (plot_feature_importances [ex_table] 0 15 (Some (1 / 2))))
       = [ex_table]
   \<and> (case outcome (plot_feature_importances [ex_table] 0 15 (Some (1 / 2))) of
         Inl e \<Rightarrow> True
       | Inr r \<Rightarrow> length [ex_table] \<le> r)"
proof -
  have h: "(0::nat) < length [ex_table]"
    by simp
  show ?thesis
    using h input_not_mutated [OF h, of 15 "Some (1 / 2)"] by simp
qed

subsection \<open>The running sum of a normalised column\<close>

lemma sum_list_nonpos_le:
  fixes xs :: "rat list"
  shows "\<forall>x\<in>set xs. x \<le> 0 \<Longrightarrow> y \<in> set xs \<Longrightarrow> sum_list xs \<le> y"
proof (induction xs)
  case Nil
  then show ?case by simp
next
  case (Cons x xs)
  have tl: "sum_list xs \<le> 0"
    using Cons.prems(1) by (simp add: sum_list_nonpos)
  show ?case
  proof (cases "y = x")
    case True
    with tl show ?thesis by simp
  next
    case False
    with Cons.prems have "y \<in> set xs" by simp
    with Cons have "sum_list xs \<le> y" by simp
    moreover have "x \<le> 0" using Cons.prems(1) by simp
    ultimately show ?thesis by simp
  qed
qed

lemma sorted_desc_head_positive:
  fixes xs :: "rat list"
  assumes "sorted_wrt (\<lambda>a b. b \<le> a) xs" and "sum_list xs = 0"
    and "i < length xs" and "xs ! i < 0"
  shows "0 < xs ! 0"
proof (rule ccontr)
  assume "\<not> 0 < xs ! 0"
  then have h: "xs ! 0 \<le> 0" by simp
  have "\<forall>x\<in>set xs. x \<le> 0"
  proof
    fix x assume "x \<in> set xs"
    then obtain j where j: "j < length xs" "x = xs ! j"
      by (metis in_set_conv_nth)
    show "x \<le> 0"
    proof (cases j)
      case 0
      with j h show ?thesis by simp
    next
      case (Suc m)
      with j assms(1) have "xs ! j \<le> xs ! 0"
        by (simp add: sorted_wrt_iff_nth_less)
      with j h show ?thesis by simp
    qed
  qed
  moreover have "xs ! i \<in> set xs" using assms(3) by simp
  ultimately have "sum_list xs \<le> xs ! i" by (rule sum_list_nonpos_le)
  with assms(2,4) show False by simp
qed

lemma fdiv_zero_cases:
  "fdiv x 0 = NaN \<longleftrightarrow> x = 0"
  "fdiv x 0 = PInf \<longleftrightarrow> 0 < x"
  "fdiv x 0 = NInf \<longleftrightarrow> x < 0"
  by (auto simp: fdiv_def)

lemma map_replace_NaN_id:
  "NaN \<notin> set vs \<Longrightarrow> map (\<lambda>v. if isnan v then Fin 0 else v) vs = vs"
  by (induction vs) (auto simp: isnan_def)

lemma nth_in_take:
  assumes "j \<le> i" and "j < length vs"
  shows "vs ! j \<in> set (take (Suc i) vs)"
proof -
  have "j < length (take (Suc i) vs)" using assms by simp
  then have "take (Suc i) vs ! j \<in> set (take (Suc i) vs)" by (rule nth_mem)
  moreover have "take (Suc i) vs ! j = vs ! j" using assms by simp
  ultimately show ?thesis by simp
qed

lemma series_cumsum_normalized:
  assumes srt: "sorted_wrt (\<lambda>a b. b \<le> a) xs"
  shows "series_cumsum (map (\<lambda>x. fdiv x (sum_list xs)) xs)
           = np_cumsum (map (\<lambda>x. fdiv x (sum_list xs)) xs)"
proof (cases "sum_list xs = 0")
  case False
  then have "NaN \<notin> set (map (\<lambda>x. fdiv x (sum_list xs)) xs)"
    by (auto simp: fdiv_def)
  then show ?thesis by (rule series_cumsum_no_NaN)
next
  case True
  let ?vs = "map (\<lambda>x. fdiv x 0) xs"
  let ?z = "\<lambda>v. if isnan v then Fin 0 else v"
  have "series_cumsum ?vs = np_cumsum ?vs"
  proof (rule nth_equalityI)
    show "length (series_cumsum ?vs) = length (np_cumsum ?vs)"
      by (simp add: length_series_cumsum length_np_cumsum)
  next
    fix i assume "i < length (series_cumsum ?vs)"
    then have i: "i < length xs" by (simp add: length_series_cumsum)
    then have iv: "i < length ?vs" by simp
    have vi: "?vs ! i = fdiv (xs ! i) 0" using i by simp
    have in_take: "?vs ! i \<in> set (take (Suc i) ?vs)"
      using iv by (simp only: nth_in_take [OF order_refl])
    show "series_cumsum ?vs ! i = np_cumsum ?vs ! i"
    proof (cases "?vs ! i = NaN")
      case True
      with in_take have "NaN \<in> set (take (Suc i) ?vs)" by simp
      then have "fsum (take (Suc i) ?vs) = NaN"
        by (rule fsum_mem_NaN)
      with True iv show ?thesis
        by (simp add: nth_series_cumsum nth_np_cumsum del: take_Suc_conv_app_nth)
    next
      case notnan: False
      show ?thesis
      proof (cases "NaN \<in> set (take (Suc i) ?vs)")
        case False
        then have "map ?z (take (Suc i) ?vs) = take (Suc i) ?vs"
          by (rule map_replace_NaN_id)
        then have "take (Suc i) (map ?z ?vs) = take (Suc i) ?vs"
          by (simp only: take_map)
        with notnan iv show ?thesis
          by (simp add: nth_series_cumsum nth_np_cumsum)
      next
        case True
        then obtain j where j: "j < Suc i" "j < length ?vs" "?vs ! j = NaN"
          by (auto simp: in_set_conv_nth)
        then have xj: "xs ! j = 0" by (simp add: fdiv_zero_cases)
        have "j \<noteq> i" using j notnan by auto
        with j have ji: "j < i" by simp
        with srt i have "xs ! i \<le> xs ! j"
          by (simp add: sorted_wrt_iff_nth_less)
        moreover have "xs ! i \<noteq> 0" using notnan vi by (simp add: fdiv_zero_cases)
        ultimately have neg: "xs ! i < 0" using xj by simp
        have pos: "0 < xs ! 0"
          using srt \<open>sum_list xs = 0\<close> i neg by (rule sorted_desc_head_positive)
        have "0 < length xs" using i by (cases xs) simp_all
        then have "?vs ! 0 = fdiv (xs ! 0) 0" by simp
        then have v0: "?vs ! 0 = PInf" using pos by (simp add: fdiv_zero_cases)
        have vneg: "?vs ! i = NInf" using vi neg by (simp add: fdiv_zero_cases)
        have "0 < length ?vs" using \<open>0 < length xs\<close> by simp
        then have "?vs ! 0 \<in> set (take (Suc i) ?vs)"
          by (rule nth_in_take [OF le0])
        then have p1: "PInf \<in> set (take (Suc i) ?vs)"
          by (simp only: v0)
        have n1: "NInf \<in> set (take (Suc i) ?vs)"
          using in_take by (simp only: vneg)
        have "fsum (take (Suc i) ?vs) = NaN"
          using p1 n1 by (rule fsum_both)
        moreover have "PInf \<in> ?z ` set (take (Suc i) ?vs)"
          using p1 by (force simp: isnan_def)
        then have p2: "PInf \<in> set (take (Suc i) (map ?z ?vs))"
          by (simp only: take_map set_map)
        have "NInf \<in> ?z ` set (take (Suc i) ?vs)"
          using n1 by (force simp: isnan_def)
        then have n2: "NInf \<in> set (take (Suc i) (map ?z ?vs))"
          by (simp only: take_map set_map)
        have "fsum (take (Suc i) (map ?z ?vs)) = NaN"
          using p2 n2 by (rule fsum_both)
        ultimately show ?thesis
          using notnan iv by (simp add: nth_series_cumsum nth_np_cumsum)
      qed
    qed
  qed
  with True show ?thesis by simp
qed


lemma cumulative_importance_table_np:
  "cumulative_importance (importance_table d) =
     Some (np_cumsum (map (\<lambda>x. fdiv x (sum_list (importance_col d)))
                       (importance_col (sort_values d))))"
proof -
  let ?xs = "importance_col (sort_values d)"
  have "series_cumsum (map (\<lambda>x. fdiv x (sum_list ?xs)) ?xs)
          = np_cumsum (map (\<lambda>x. fdiv x (sum_list ?xs)) ?xs)"
    using sorted_importance_col_sort_values by (rule series_cumsum_normalized)
  then show ?thesis
    by (simp add: cumulative_importance_table sum_list_sort_values)
qed

lemma length_importance_col_sort_values:
  "length (importance_col (sort_values d)) = length (rows d)"
  by (simp add: importance_col_def length_rows_sort_values)

lemma length_rows_importance_table: "length (rows (importance_table d)) = length (rows d)"
  by (simp add: rows_importance_table length_rows_reset_index length_rows_sort_values)

text \<open>
  C3. The k-th entry of the cumulative_importance column of the returned table is the
  sum of the first k entries of its importance_normalized column, in the returned order.
  This holds for every table, a total of zero included: there the normalised entries are
  infinities and NaN, and the sum is the float64 one.
\<close>

theorem cumulative_is_running_sum:
  assumes "df0 < length st0"
    and "outcome (plot_feature_importances st0 df0 n threshold) = Inr r"
    and "1 \<le> k" and "k \<le> length (rows (st0 ! df0))"
  shows "\<exists>nrm cum.
           importance_normalized (heap (plot_feature_importances st0 df0 n threshold) ! r)
             = Some nrm
         \<and> cumulative_importance (heap (plot_feature_importances st0 df0 n threshold) ! r)
             = Some cum
         \<and> length nrm = length (rows (st0 ! df0))
         \<and> length cum = length (rows (st0 ! df0))
         \<and> cum ! (k - 1) = fsum (take k nrm)"
proof -
  let ?d = "st0 ! df0"
  let ?nrm = "map (\<lambda>x. fdiv x (sum_list (importance_col ?d))) (importance_col (sort_values ?d))"
  have out: "heap (plot_feature_importances st0 df0 n threshold) ! r = importance_table ?d"
    using assms(2) by (rule returned_table)
  have len: "length ?nrm = length (rows ?d)"
    by (simp add: length_importance_col_sort_values)
  have "k - 1 < length ?nrm"
    using assms(3,4) len by simp
  then have "np_cumsum ?nrm ! (k - 1) = fsum (take (Suc (k - 1)) ?nrm)"
    by (rule nth_np_cumsum)
  then have nth: "np_cumsum ?nrm ! (k - 1) = fsum (take k ?nrm)"
    using assms(3) by simp
  have "importance_normalized (importance_table ?d) = Some ?nrm"
    by (rule normalized_importance_table)
  moreover have "cumulative_importance (importance_table ?d) = Some (np_cumsum ?nrm)"
    by (rule cumulative_importance_table_np)
  moreover have "length (np_cumsum ?nrm) = length (rows ?d)"
    by (simp only: length_np_cumsum len)
  ultimately show ?thesis
    using len nth unfolding out by blast
qed

theorem cumulative_is_running_sum_witness:
  "(0::nat) < length [ex_table]
   \<and> outcome (plot_feature_importances [ex_table] 0 15 None) = Inr 2
   \<and> (1::nat) \<le> 2 \<and> 2 \<le> length (rows ([ex_table] ! 0))
   \<and> (\<exists>nrm cum.
         importance_normalized (heap (plot_feature_importances [ex_table] 0 15 None) ! 2)
           = Some nrm
       \<and> cumulative_importance (heap (plot_feature_importances [ex_table] 0 15 None) ! 2)
           = Some cum
       \<and> length nrm = length (rows ([ex_table] ! 0))
       \<and> length cum = length (rows ([ex_table] ! 0))
       \<and> cum ! (2 - 1) = fsum (take 2 nrm))"
proof -
  have h1: "(0::nat) < length [ex_table]"
    by simp
  have h2: "outcome (plot_feature_importances [ex_table] 0 15 None) = Inr 2"
    by code_simp
  have h3: "(1::nat) \<le> 2"
    by simp
  have h4: "2 \<le> length (rows ([ex_table] ! 0))"
    by code_simp
  show ?thesis
    using h1 h2 h3 h4 cumulative_is_running_sum [OF h1 h2 h3 h4] by blast
qed

subsection \<open>What a returning call of evaluate went through\<close>

lemma columns_replace_inf: "columns (replace_inf t) = columns t"
  by (simp add: replace_inf_def)

lemma DataFrame_Inr:
  assumes "DataFrame names vals = Inr df"
  shows "length names = length vals"
    and "map feature (rows df) = names" and "map importance (rows df) = vals"
    and "map label (rows df) = map int [0..<length names]"
    and "importance_normalized df = None" and "cumulative_importance df = None"
proof -
  show len: "length names = length vals"
    using assms by (simp add: DataFrame_def split: if_splits)
  have df: "df = \<lparr>rows = map (\<lambda>i. \<lparr>label = int i, feature = names ! i, importance = vals ! i\<rparr>)
                          [0..<length names],
                 importance_normalized = None, cumulative_importance = None\<rparr>"
    using assms by (simp add: DataFrame_def split: if_splits)
  show "map feature (rows df) = names"
    by (simp add: df comp_def map_nth)
  have "map importance (rows df) = map (\<lambda>i. vals ! i) [0..<length vals]"
    by (simp add: df comp_def len)
  then show "map importance (rows df) = vals"
    by (simp add: map_nth)
  show "map label (rows df) = map int [0..<length names]"
    by (simp add: df comp_def)
  show "importance_normalized df = None" and "cumulative_importance df = None"
    by (simp_all add: df)
qed

lemma evaluate_Inr:
  assumes "snd (evaluate sk train train_labels test test_labels) = Inr (preds, fi)"
  shows "\<exists>imputer train_m test_m model mae.
           imputer_fit_transform sk (replace_inf train) = Inr (imputer, train_m)
         \<and> imputer_transform sk imputer (replace_inf test) = Inr test_m
         \<and> fit sk train_m train_labels = Inr model
         \<and> predict sk model test_m = Inr preds
         \<and> median_absolute_error sk test_labels preds = Inr mae
         \<and> DataFrame (columns train) (feature_importances sk model) = Inr fi"
  using assms
  by (auto simp: evaluate_def Let_def columns_replace_inf split: sum.splits prod.splits)


text \<open>
  C5. When evaluate returns, the prediction vector is as long as test_labels. The
  predictions come from the library's \<open>predict\<close>; what ties their length to the labels
  is the call \<open>median_absolute_error(test_labels, preds)\<close> before the return, which in
  scikit-learn raises on vectors of different lengths. That behaviour of the library is
  the hypothesis.
\<close>

theorem predictions_match_test_labels:
  assumes "\<forall>y p. length y \<noteq> length p \<longrightarrow> (\<exists>e. median_absolute_error sk y p = Inl e)"
    and "snd (evaluate sk train train_labels test test_labels) = Inr (preds, fi)"
  shows "length preds = length test_labels"
proof -
  obtain mae where "median_absolute_error sk test_labels preds = Inr mae"
    using evaluate_Inr [OF assms(2)] by blast
  then have "\<not> (\<exists>e. median_absolute_error sk test_labels preds = Inl e)"
    by simp
  with assms(1) show ?thesis by metis
qed

theorem predictions_match_test_labels_witness:
  "median_absolute_error ex_sklearn [7, 8] [0] = Inl ValueError
   \<and> snd (evaluate ex_sklearn ex_train [1, 2] ex_test [7])
       = Inr ([0], \<lparr>rows = [\<lparr>label = 0, feature = ''x'', importance = 1 / 2\<rparr>,
                             \<lparr>label = 1, feature = ''y'', importance = 1 / 2\<rparr>],
                     importance_normalized = None, cumulative_importance = None\<rparr>)
   \<and> length [0::rat] = length [7::rat]"
proof -
  have h0: "median_absolute_error ex_sklearn [7, 8] [0] = Inl ValueError"
    by (simp add: ex_sklearn_def)
  have h1: "\<forall>y p. length y \<noteq> length p
              \<longrightarrow> (\<exists>e. median_absolute_error ex_sklearn y p = Inl e)"
    by (simp add: ex_sklearn_def)
  have h2: "snd (evaluate ex_sklearn ex_train [1, 2] ex_test [7])
              = Inr ([0], \<lparr>rows = [\<lparr>label = 0, feature = ''x'', importance = 1 / 2\<rparr>,
                                    \<lparr>label = 1, feature = ''y'', importance = 1 / 2\<rparr>],
                            importance_normalized = None, cumulative_importance = None\<rparr>)"
    by code_simp
  show ?thesis
    using h0 h2 predictions_match_test_labels [OF h1 h2] by simp
qed

text \<open>
  C6. When evaluate returns, the feature-importance table has one row per column of the
  train table: the features are the column names in order, and the importances are the
  fitted model's, paired by position.
\<close>

theorem importance_row_per_feature:
  assumes "snd (evaluate sk train train_labels test test_labels) = Inr (preds, fi)"
  shows "length (rows fi) = length (columns train)
       \<and> map feature (rows fi) = columns train
       \<and> (\<exists>imputer train_m model.
             imputer_fit_transform sk (replace_inf train) = Inr (imputer, train_m)
           \<and> fit sk train_m train_labels = Inr model
           \<and> map importance (rows fi) = feature_importances sk model)"
proof -
  obtain imputer train_m model
    where a: "imputer_fit_transform sk (replace_inf train) = Inr (imputer, train_m)"
      and b: "fit sk train_m train_labels = Inr model"
      and c: "DataFrame (columns train) (feature_importances sk model) = Inr fi"
    using evaluate_Inr [OF assms] by blast
  have f: "map feature (rows fi) = columns train"
    using c by (rule DataFrame_Inr(2))
  have "length (map feature (rows fi)) = length (columns train)"
    by (simp only: f)
  then have "length (rows fi) = length (columns train)"
    by simp
  moreover have "map importance (rows fi) = feature_importances sk model"
    using c by (rule DataFrame_Inr(3))
  ultimately show ?thesis using f a b by blast
qed

theorem importance_row_per_feature_witness:
  "snd (evaluate ex_sklearn ex_train [1, 2] ex_test [7])
       = Inr ([0], \<lparr>rows = [\<lparr>label = 0, feature = ''x'', importance = 1 / 2\<rparr>,
                             \<lparr>label = 1, feature = ''y'', importance = 1 / 2\<rparr>],
                     importance_normalized = None, cumulative_importance = None\<rparr>)
   \<and> length [\<lparr>label = 0, feature = ''x'', importance = 1 / 2\<rparr>,
             \<lparr>label = 1, feature = ''y'', importance = 1 / 2\<rparr>] = length (columns ex_train)
   \<and> [''x'', ''y''] = columns ex_train"
proof -
  have h: "snd (evaluate ex_sklearn ex_train [1, 2] ex_test [7])
              = Inr ([0], \<lparr>rows = [\<lparr>label = 0, feature = ''x'', importance = 1 / 2\<rparr>,
                                    \<lparr>label = 1, feature = ''y'', importance = 1 / 2\<rparr>],
                            importance_normalized = None, cumulative_importance = None\<rparr>)"
    by code_simp
  show ?thesis
    using h importance_row_per_feature [OF h] by simp
qed

subsection \<open>A threshold of zero\<close>

text \<open>
  C9. A threshold of 0 behaves exactly as no threshold: the guard tests the truth value
  of the argument, so store, effects and outcome of the two calls are the same, and the
  cumulative plot and the threshold lookup are skipped: the bar plot is the only effect,
  if it was drawn at all.
\<close>

theorem zero_threshold_is_no_threshold:
  "plot_feature_importances st0 df0 n (Some 0) = plot_feature_importances st0 df0 n None
   \<and> (events (plot_feature_importances st0 df0 n (Some 0)) = []
        \<or> (\<exists>bars. events (plot_feature_importances st0 df0 n (Some 0)) = [Barh bars n]))"
  by (simp add: plot_feature_importances_def truthy_def alloc_def Let_def nth_append
      getitem_normalized_def split: sum.splits)

subsection \<open>Non-negative importances\<close>







subsection \<open>The bar plot and the threshold lookup\<close>

lemma set_np_where_gt: "set (np_where_gt vs t) = {i. i < length vs \<and> fgt (vs ! i) t}"
  by (auto simp: np_where_gt_def)

lemma np_where_gt_empty: "np_where_gt vs t = [] \<longleftrightarrow> (\<forall>c\<in>set vs. \<not> fgt c t)"
proof -
  have "np_where_gt vs t = [] \<longleftrightarrow> set (np_where_gt vs t) = {}"
    by simp
  also have "\<dots> \<longleftrightarrow> (\<forall>i<length vs. \<not> fgt (vs ! i) t)"
    by (auto simp: set_np_where_gt)
  also have "\<dots> \<longleftrightarrow> (\<forall>c\<in>set vs. \<not> fgt c t)"
    by (simp add: all_set_conv_all_nth)
  finally show ?thesis .
qed

lemma np_min_Nil: "np_min [] = Inl ValueError"
  by (simp add: np_min_def)

lemma np_min_Min: "xs \<noteq> [] \<Longrightarrow> np_min xs = Inr (Min (set xs))"
proof (cases xs)
  case Nil
  then show "xs \<noteq> [] \<Longrightarrow> ?thesis" by simp
next
  case (Cons x ys)
  have "Min (set (x # ys)) = fold min ys x"
    by (rule Min.set_eq_fold)
  with Cons show ?thesis by (simp add: np_min_def)
qed

lemma np_min_where_gt:
  assumes "np_min (np_where_gt vs t) = Inr i"
  shows "i < length vs" and "fgt (vs ! i) t" and "\<forall>j<i. \<not> fgt (vs ! j) t"
proof -
  let ?S = "set (np_where_gt vs t)"
  have ne: "np_where_gt vs t \<noteq> []"
    using assms by (auto simp: np_min_Nil)
  then have i: "i = Min ?S"
    using assms by (simp add: np_min_Min)
  have "Min ?S \<in> ?S"
    using ne by (intro Min_in) simp_all
  then have "i \<in> ?S" by (simp only: i)
  then show "i < length vs" and "fgt (vs ! i) t"
    by (simp_all add: set_np_where_gt)
  show "\<forall>j<i. \<not> fgt (vs ! j) t"
  proof (intro allI impI notI)
    fix j assume ji: "j < i" and g: "fgt (vs ! j) t"
    have "j < length vs" using ji \<open>i < length vs\<close> by simp
    with g have "j \<in> ?S" by (simp add: set_np_where_gt)
    then have "Min ?S \<le> j" by (intro Min_le) simp_all
    with ji i show False by simp
  qed
qed

lemma loc_barh_importance_table:
  "(\<exists>bars. loc_barh n (importance_table d) = Inr bars) \<longleftrightarrow> 0 \<le> n \<and> rows d \<noteq> []"
proof -
  let ?t = "importance_table d"
  obtain nrm where nrm: "importance_normalized ?t = Some nrm" "length nrm = length (rows d)"
    by (simp add: normalized_importance_table length_importance_col_sort_values)
  have len: "length (rows ?t) = length (rows d)"
    by (rule length_rows_importance_table)
  have lab: "map label (rows ?t) = map int [0..<length (rows d)]"
    by (simp add: rows_importance_table map_label_reset_index length_rows_sort_values)
  let ?sel = "filter (\<lambda>(r, v). label r \<le> n) (zip (rows ?t) nrm)"
  have sel: "?sel \<noteq> [] \<longleftrightarrow> 0 \<le> n \<and> rows d \<noteq> []"
  proof
    assume "?sel \<noteq> []"
    then obtain r v where rv: "(r, v) \<in> set (zip (rows ?t) nrm)" "label r \<le> n"
      by (auto simp: filter_empty_conv)
    from rv(1) have "r \<in> set (rows ?t)" by (rule set_zip_leftD)
    then have "label r \<in> set (map label (rows ?t))" by simp
    then have "0 \<le> label r" by (auto simp: lab)
    with rv(2) have "0 \<le> n" by simp
    moreover have "rows d \<noteq> []" using \<open>r \<in> set (rows ?t)\<close> len by (cases "rows d") auto
    ultimately show "0 \<le> n \<and> rows d \<noteq> []" by simp
  next
    assume a: "0 \<le> n \<and> rows d \<noteq> []"
    then have pos: "0 < length (rows ?t)" "0 < length nrm"
      using len nrm(2) by simp_all
    then have "(rows ?t ! 0, nrm ! 0) \<in> set (zip (rows ?t) nrm)"
      by (metis in_set_zip fst_conv snd_conv)
    moreover have "label (rows ?t ! 0) = map label (rows ?t) ! 0"
      using pos by simp
    then have "label (rows ?t ! 0) = 0"
      using pos len by (simp add: lab)
    ultimately have "(rows ?t ! 0, nrm ! 0) \<in> set ?sel"
      using a by simp
    then show "?sel \<noteq> []" by (metis empty_iff list.set(1))
  qed
  have "loc_barh n ?t
          = (if map (\<lambda>(r, v). (feature r, v)) ?sel = [] then Inl IndexError
             else Inr (map (\<lambda>(r, v). (feature r, v)) ?sel))"
    by (simp add: loc_barh_def getitem_normalized_def nrm Let_def)
  then have "(\<exists>bars. loc_barh n ?t = Inr bars) \<longleftrightarrow> ?sel \<noteq> []"
    by auto
  then show ?thesis
    by (simp only: sel)
qed

lemma plot_feature_importances_barh_fails:
  assumes "\<not> (0 \<le> n \<and> rows (st0 ! df0) \<noteq> [])"
  shows "outcome (plot_feature_importances st0 df0 n threshold) = Inl IndexError"
    and "events (plot_feature_importances st0 df0 n threshold) = []"
proof -
  have "\<not> (\<exists>bars. loc_barh n (importance_table (st0 ! df0)) = Inr bars)"
    using assms loc_barh_importance_table [of n "st0 ! df0"] by blast
  moreover have "\<exists>bars. loc_barh n (importance_table (st0 ! df0)) = Inr bars
                   \<or> loc_barh n (importance_table (st0 ! df0)) = Inl IndexError"
    by (auto simp: loc_barh_def getitem_normalized_def normalized_importance_table Let_def)
  ultimately have e: "loc_barh n (importance_table (st0 ! df0)) = Inl IndexError"
    by blast
  have "outcome (plot_feature_importances st0 df0 n threshold) = Inl IndexError
      \<and> events (plot_feature_importances st0 df0 n threshold) = []"
    using e
    by (simp add: plot_feature_importances_def alloc_def Let_def nth_append
        importance_table_def getitem_normalized_def split: sum.splits)
  then show "outcome (plot_feature_importances st0 df0 n threshold) = Inl IndexError"
    and "events (plot_feature_importances st0 df0 n threshold) = []"
    by simp_all
qed

lemma plot_feature_importances_threshold:
  assumes "t \<noteq> 0" and "0 \<le> n" and "rows (st0 ! df0) \<noteq> []"
    and "cumulative_importance (importance_table (st0 ! df0)) = Some cum"
  shows "outcome (plot_feature_importances st0 df0 n (Some t))
           = (case np_min (np_where_gt cum t) of
                Inl e \<Rightarrow> Inl e
              | Inr i \<Rightarrow> Inr (Suc (length st0)))"
    and "reported (events (plot_feature_importances st0 df0 n (Some t)))
           = (case np_min (np_where_gt cum t) of
                Inl e \<Rightarrow> None
              | Inr i \<Rightarrow> Some (i + 1))"
proof -
  obtain bars where b: "loc_barh n (importance_table (st0 ! df0)) = Inr bars"
    using assms(2,3) loc_barh_importance_table [of n "st0 ! df0"] by blast
  have "outcome (plot_feature_importances st0 df0 n (Some t))
           = (case np_min (np_where_gt cum t) of
                Inl e \<Rightarrow> Inl e
              | Inr i \<Rightarrow> Inr (Suc (length st0)))
      \<and> reported (events (plot_feature_importances st0 df0 n (Some t)))
           = (case np_min (np_where_gt cum t) of
                Inl e \<Rightarrow> None
              | Inr i \<Rightarrow> Some (i + 1))"
    using assms(1,4) b
    by (simp add: plot_feature_importances_def truthy_def alloc_def Let_def nth_append
        importance_table_def getitem_normalized_def getitem_cumulative_def
        split: sum.splits)
  then show "outcome (plot_feature_importances st0 df0 n (Some t))
           = (case np_min (np_where_gt cum t) of
                Inl e \<Rightarrow> Inl e
              | Inr i \<Rightarrow> Inr (Suc (length st0)))"
    and "reported (events (plot_feature_importances st0 df0 n (Some t)))
           = (case np_min (np_where_gt cum t) of
                Inl e \<Rightarrow> None
              | Inr i \<Rightarrow> Some (i + 1))"
    by simp_all
qed


lemma length_cumulative_importance_table:
  assumes "cumulative_importance (importance_table d) = Some cum"
  shows "length cum = length (rows d)"
  using assms
  by (auto simp: cumulative_importance_table length_series_cumsum
      length_importance_col_sort_values)

text \<open>
  C8, as the code has it. \<open>cum\<close> is the cumulative-importance column of the table that
  the call builds (the second object it allocates), whatever its entries are. With a
  truthy threshold \<open>t\<close> and \<open>n\<close> at least 0, the call completes without error exactly when
  some entry of \<open>cum\<close> strictly exceeds \<open>t\<close>. When no entry does (a threshold at or above
  the maximum of the column) it raises: a ValueError from the lookup, or an IndexError
  from the bar plot when the table is empty. When it completes, the number of features
  it reports is the smallest \<open>k\<close> such that the cumulative importance of the top \<open>k\<close>
  features, \<open>cum ! (k - 1)\<close>, strictly exceeds \<open>t\<close>.
\<close>

theorem threshold_lookup:
  assumes "df0 < length st0"
    and "truthy (Some t)"
    and "0 \<le> n"
    and "cumulative_importance
           (heap (plot_feature_importances st0 df0 n (Some t)) ! Suc (length st0)) = Some cum"
  shows "((\<exists>r. outcome (plot_feature_importances st0 df0 n (Some t)) = Inr r)
            \<longleftrightarrow> (\<exists>c\<in>set cum. fgt c t))
       \<and> ((\<forall>c\<in>set cum. \<not> fgt c t)
            \<longrightarrow> outcome (plot_feature_importances st0 df0 n (Some t))
                  = Inl (if cum = [] then IndexError else ValueError))
       \<and> ((\<exists>c\<in>set cum. fgt c t)
            \<longrightarrow> (\<exists>k. reported (events (plot_feature_importances st0 df0 n (Some t))) = Some k
                   \<and> 1 \<le> k \<and> k \<le> length cum
                   \<and> fgt (cum ! (k - 1)) t
                   \<and> (\<forall>j<k - 1. \<not> fgt (cum ! j) t)))"
proof -
  let ?res = "plot_feature_importances st0 df0 n (Some t)"
  let ?d = "st0 ! df0"
  have t: "t \<noteq> 0" using assms(2) by (simp add: truthy_def)
  have "heap ?res ! Suc (length st0) = importance_table ?d"
    by (simp add: heap_plot_feature_importances nth_append)
  with assms(4) have cum: "cumulative_importance (importance_table ?d) = Some cum"
    by simp
  then have len: "length cum = length (rows ?d)"
    by (rule length_cumulative_importance_table)
  show ?thesis
  proof (cases "rows ?d = []")
    case True
    then have "cum = []" using len by simp
    moreover have "outcome ?res = Inl IndexError"
      using True by (intro plot_feature_importances_barh_fails(1)) simp
    ultimately show ?thesis by simp
  next
    case False
    then have ne: "cum \<noteq> []" using len by auto
    note out = plot_feature_importances_threshold(1) [OF t assms(3) False cum]
    note rep = plot_feature_importances_threshold(2) [OF t assms(3) False cum]
    have fail: "outcome ?res = Inl ValueError" if "\<forall>c\<in>set cum. \<not> fgt c t"
    proof -
      have "np_where_gt cum t = []" using that by (simp add: np_where_gt_empty)
      then show ?thesis by (simp add: out np_min_Nil)
    qed
    have ok: "\<exists>k. outcome ?res = Inr (Suc (length st0)) \<and> reported (events ?res) = Some k
                \<and> 1 \<le> k \<and> k \<le> length cum \<and> fgt (cum ! (k - 1)) t
                \<and> (\<forall>j<k - 1. \<not> fgt (cum ! j) t)"
      if "\<exists>c\<in>set cum. fgt c t"
    proof -
      have "np_where_gt cum t \<noteq> []" using that by (simp add: np_where_gt_empty)
      then obtain i where i: "np_min (np_where_gt cum t) = Inr i"
        by (auto simp: np_min_Min)
      note np_min_where_gt [OF i]
      then have "1 \<le> i + 1 \<and> i + 1 \<le> length cum \<and> fgt (cum ! (i + 1 - 1)) t
                   \<and> (\<forall>j<i + 1 - 1. \<not> fgt (cum ! j) t)"
        by simp
      moreover have "outcome ?res = Inr (Suc (length st0))" by (simp add: out i)
      moreover have "reported (events ?res) = Some (i + 1)" by (simp add: rep i)
      ultimately show ?thesis by blast
    qed
    have iff: "(\<exists>r. outcome ?res = Inr r) \<longleftrightarrow> (\<exists>c\<in>set cum. fgt c t)"
    proof
      assume "\<exists>r. outcome ?res = Inr r"
      then show "\<exists>c\<in>set cum. fgt c t" using fail by fastforce
    next
      assume "\<exists>c\<in>set cum. fgt c t"
      then show "\<exists>r. outcome ?res = Inr r" using ok by blast
    qed
    show ?thesis using iff fail ok ne by simp
  qed
qed

theorem threshold_lookup_witness:
  "(0::nat) < length [ex_table] \<and> (0::int) \<le> 15
   \<and> truthy (Some (1 / 2))
   \<and> cumulative_importance
         (heap (plot_feature_importances [ex_table] 0 15 (Some (1 / 2))) ! Suc (length [ex_table]))
       = Some [Fin (3 / 4), Fin 1, Fin 1]
   \<and> fgt (Fin (3 / 4)) (1 / 2)
   \<and> (\<exists>r. outcome (plot_feature_importances [ex_table] 0 15 (Some (1 / 2))) = Inr r)
   \<and> (\<exists>k. reported (events (plot_feature_importances [ex_table] 0 15 (Some (1 / 2)))) = Some k
          \<and> 1 \<le> k \<and> k \<le> length [Fin (3 / 4), Fin 1, Fin 1]
          \<and> fgt ([Fin (3 / 4), Fin 1, Fin 1] ! (k - 1)) (1 / 2)
          \<and> (\<forall>j<k - 1. \<not> fgt ([Fin (3 / 4), Fin 1, Fin 1] ! j) (1 / 2)))
   \<and> truthy (Some 1)
   \<and> cumulative_importance
         (heap (plot_feature_importances [ex_table] 0 15 (Some 1)) ! Suc (length [ex_table]))
       = Some [Fin (3 / 4), Fin 1, Fin 1]
   \<and> outcome (plot_feature_importances [ex_table] 0 15 (Some 1)) = Inl ValueError"
proof -
  have h1: "(0::nat) < length [ex_table]"
    by simp
  have h3: "(0::int) \<le> 15"
    by simp
  have h2: "truthy (Some (1 / 2))"
    by (simp add: truthy_def)
  have h4: "cumulative_importance
              (heap (plot_feature_importances [ex_table] 0 15 (Some (1 / 2)))
                 ! Suc (length [ex_table]))
              = Some [Fin (3 / 4), Fin 1, Fin 1]"
    by code_simp
  have g: "fgt (Fin (3 / 4)) (1 / 2)"
    by simp
  then have ex: "\<exists>c\<in>set [Fin (3 / 4), Fin 1, Fin 1]. fgt c (1 / 2)"
    by simp
  have k2: "truthy (Some 1)"
    by (simp add: truthy_def)
  have k4: "cumulative_importance
              (heap (plot_feature_importances [ex_table] 0 15 (Some 1)) ! Suc (length [ex_table]))
              = Some [Fin (3 / 4), Fin 1, Fin 1]"
    by code_simp
  have none: "\<forall>c\<in>set [Fin (3 / 4), Fin 1, Fin 1]. \<not> fgt c 1"
    by simp
  have completes:
    "(\<exists>r. outcome (plot_feature_importances [ex_table] 0 15 (Some (1 / 2))) = Inr r)
     \<and> (\<exists>k. reported (events (plot_feature_importances [ex_table] 0 15 (Some (1 / 2)))) = Some k
          \<and> 1 \<le> k \<and> k \<le> length [Fin (3 / 4), Fin 1, Fin 1]
          \<and> fgt ([Fin (3 / 4), Fin 1, Fin 1] ! (k - 1)) (1 / 2)
          \<and> (\<forall>j<k - 1. \<not> fgt ([Fin (3 / 4), Fin 1, Fin 1] ! j) (1 / 2)))"
    using ex threshold_lookup [OF h1 h2 h3 h4] by blast
  have fails: "outcome (plot_feature_importances [ex_table] 0 15 (Some 1)) = Inl ValueError"
    using none threshold_lookup [OF h1 k2 h3 k4] by simp
  show ?thesis
    using h1 h2 h3 h4 g k2 k4 completes fails by blast
qed

text \<open>
  C8 as stated fails in two places. For \<open>n = -1\<close> the bar plot has no rows and raises,
  although the entry 3/4 exceeds the threshold 1/2. And a threshold of 1 need not fail:
  with the importances -1 and 3 the first cumulative entry is 3/2, and the call
  completes and reports one feature.
\<close>

theorem threshold_lookup_counterexample:
  "truthy (Some (1 / 2))
   \<and> cumulative_importance
         (heap (plot_feature_importances [ex_table] 0 (- 1) (Some (1 / 2)))
            ! Suc (length [ex_table]))
       = Some [Fin (3 / 4), Fin 1, Fin 1]
   \<and> fgt (Fin (3 / 4)) (1 / 2)
   \<and> outcome (plot_feature_importances [ex_table] 0 (- 1) (Some (1 / 2))) = Inl IndexError
   \<and> truthy (Some 1)
   \<and> outcome (plot_feature_importances [ex_negative] 0 15 (Some 1)) = Inr 2
   \<and> reported (events (plot_feature_importances [ex_negative] 0 15 (Some 1))) = Some 1"
proof -
  have c1: "truthy (Some (1 / 2))"
    by (simp add: truthy_def)
  have c2: "cumulative_importance
              (heap (plot_feature_importances [ex_table] 0 (- 1) (Some (1 / 2)))
                 ! Suc (length [ex_table]))
              = Some [Fin (3 / 4), Fin 1, Fin 1]"
    by code_simp
  have c3: "fgt (Fin (3 / 4)) (1 / 2)"
    by simp
  have c4: "outcome (plot_feature_importances [ex_table] 0 (- 1) (Some (1 / 2))) = Inl IndexError"
    by code_simp
  have c5: "truthy (Some 1)"
    by (simp add: truthy_def)
  have c6: "outcome (plot_feature_importances [ex_negative] 0 15 (Some 1)) = Inr 2"
    by code_simp
  have c7: "reported (events (plot_feature_importances [ex_negative] 0 15 (Some 1))) = Some 1"
    by code_simp
  show ?thesis
    using c1 c2 c3 c4 c5 c6 c7 by blast
qed

end
